theory Spec2Isabelle
  imports Main
begin

section \<open>Values of the JavaScript runtime\<close>

text \<open>
  The middleware of \<^verbatim>\<open>useCustomFetch\<close> handles values typed \<^verbatim>\<open>any\<close>
  (\<^verbatim>\<open>ctx.data\<close>, the values of a \<^verbatim>\<open>Record<string, any>\<close>). They are modelled
  by one datatype. Strings are byte strings (UTF-8), numbers are modelled at their
  integer values, and an object is the list of its own enumerable entries in the order
  \<^verbatim>\<open>Object.entries\<close> yields them.
\<close>

datatype any =
    JUndefined
  | JNull
  | JBool bool
  | JNum int
  | JStr string
  | JArr "any list"
  | JObj "(string \<times> any) list"

text \<open>The enum \<^verbatim>\<open>ApiErrorStatus\<close>.\<close>

datatype ApiErrorStatus = TYPE_ERROR | SERVER_ERROR | ABORT_ERROR

text \<open>
  What a step can throw: \<^verbatim>\<open>new TypeError(tag)\<close> built by the middleware itself, the
  runtime's own TypeError for a property access on \<^verbatim>\<open>null\<close> or \<^verbatim>\<open>undefined\<close>, and the
  SyntaxError of \<^verbatim>\<open>JSON.parse\<close>.
\<close>

datatype exn = TypeError ApiErrorStatus | TypeError_nullish | SyntaxError

text \<open>Truthiness, as \<^verbatim>\<open>if (value)\<close> tests it.\<close>

fun truthy :: "any \<Rightarrow> bool" where
  "truthy JUndefined = False"
| "truthy JNull = False"
| "truthy (JBool b) = b"
| "truthy (JNum n) = (n \<noteq> 0)"
| "truthy (JStr s) = (s \<noteq> [])"
| "truthy (JArr xs) = True"
| "truthy (JObj ps) = True"

text \<open>
  The types \<^verbatim>\<open>RequestInput = string | number | boolean\<close> and
  \<^verbatim>\<open>RequestInputs = RequestInput | RequestInput[]\<close>, as predicates on values.
\<close>

fun RequestInput :: "any \<Rightarrow> bool" where
  "RequestInput (JStr s) = True"
| "RequestInput (JNum n) = True"
| "RequestInput (JBool b) = True"
| "RequestInput v = False"

fun RequestInputs :: "any \<Rightarrow> bool" where
  "RequestInputs (JArr els) = list_all RequestInput els"
| "RequestInputs v = RequestInput v"

fun show_nat :: "nat \<Rightarrow> string" where
  "show_nat n =
     (if n < 10 then [''0123456789'' ! n]
      else show_nat (n div 10) @ [''0123456789'' ! (n mod 10)])"

declare show_nat.simps [simp del]

definition show_int :: "int \<Rightarrow> string" where
  "show_int i = (if i < 0 then ''-'' @ show_nat (nat (- i)) else show_nat (nat i))"

fun join :: "string \<Rightarrow> string list \<Rightarrow> string" where
  "join sep [] = []"
| "join sep [x] = x"
| "join sep (x # y # ys) = x @ sep @ join sep (y # ys)"

text \<open>
  The string conversion that \<^verbatim>\<open>Array.prototype.join\<close> applies to an element: the empty
  string for \<^verbatim>\<open>null\<close> and \<^verbatim>\<open>undefined\<close>, the value's own \<^verbatim>\<open>toString()\<close> otherwise.
\<close>

fun ToString :: "any \<Rightarrow> string" where
  "ToString JUndefined = []"
| "ToString JNull = []"
| "ToString (JBool b) = (if b then ''true'' else ''false'')"
| "ToString (JNum n) = show_int n"
| "ToString (JStr s) = s"
| "ToString (JArr xs) = join '','' (map ToString xs)"
| "ToString (JObj ps) = ''[object Object]''"

text \<open>The method call \<^verbatim>\<open>v.toString()\<close>: a TypeError on \<^verbatim>\<open>null\<close> and \<^verbatim>\<open>undefined\<close>.\<close>

definition toString :: "any \<Rightarrow> exn + string" where
  "toString v =
     (case v of
        JUndefined \<Rightarrow> Inl TypeError_nullish
      | JNull \<Rightarrow> Inl TypeError_nullish
      | _ \<Rightarrow> Inr (ToString v))"

section \<open>URLSearchParams\<close>

text \<open>
  A \<^verbatim>\<open>URLSearchParams\<close> object is its list of name-value pairs; \<^verbatim>\<open>append\<close> adds a
  pair at the end; \<^verbatim>\<open>toString\<close> is the application/x-www-form-urlencoded serializer
  of the platform: letters, digits and \<^verbatim>\<open>*-._\<close> stay, a space becomes \<^verbatim>\<open>+\<close>, every
  other byte becomes \<^verbatim>\<open>%XX\<close>.
\<close>

type_synonym URLSearchParams = "(string \<times> string) list"

definition append :: "URLSearchParams \<Rightarrow> string \<Rightarrow> string \<Rightarrow> URLSearchParams" where
  "append query name val = query @ [(name, val)]"

definition hex_digit :: "nat \<Rightarrow> char" where
  "hex_digit n = ''0123456789ABCDEF'' ! n"

definition unreserved :: "char \<Rightarrow> bool" where
  "unreserved c =
     (c \<in> set ''abcdefghijklmnopqrstuvwxyzABCDEFGHIJKLMNOPQRSTUVWXYZ0123456789*-._'')"

definition encode_byte :: "char \<Rightarrow> string" where
  "encode_byte c =
     (if c = CHR '' '' then ''+''
      else if unreserved c then [c]
      else [CHR ''%'', hex_digit (of_char c div 16), hex_digit (of_char c mod 16)])"

definition urlencode :: "string \<Rightarrow> string" where
  "urlencode s = concat (map encode_byte s)"

definition URLSearchParams_toString :: "URLSearchParams \<Rightarrow> string" where
  "URLSearchParams_toString query =
     join ''&'' (map (\<lambda>p. urlencode (fst p) @ ''='' @ urlencode (snd p)) query)"

section \<open>The query-string serializer and the body cleaner\<close>

text \<open>\<^verbatim>\<open>value.forEach(el => query.append(key, el.toString()))\<close>\<close>

fun forEach_append :: "string \<Rightarrow> any list \<Rightarrow> URLSearchParams \<Rightarrow> exn + URLSearchParams" where
  "forEach_append key [] query = Inr query"
| "forEach_append key (el # els) query =
     (case toString el of
        Inl e \<Rightarrow> Inl e
      | Inr s \<Rightarrow> forEach_append key els (append query key s))"

text \<open>The \<^verbatim>\<open>for ... of Object.entries(queryData)\<close> loop of \<^verbatim>\<open>generateQueryString\<close>.\<close>

fun generateQueryString_loop :: "(string \<times> any) list \<Rightarrow> URLSearchParams \<Rightarrow> exn + URLSearchParams" where
  "generateQueryString_loop [] query = Inr query"
| "generateQueryString_loop ((key, JArr els) # rest) query =
     (case forEach_append key els query of
        Inl e \<Rightarrow> Inl e
      | Inr query' \<Rightarrow> generateQueryString_loop rest query')"
| "generateQueryString_loop ((key, v) # rest) query =
     (if truthy v then
        (case toString v of
           Inl e \<Rightarrow> Inl e
         | Inr s \<Rightarrow> generateQueryString_loop rest (append query key s))
      else generateQueryString_loop rest query)"

definition generateQueryString :: "(string \<times> any) list \<Rightarrow> exn + string" where
  "generateQueryString queryData =
     (case generateQueryString_loop queryData [] of
        Inl e \<Rightarrow> Inl e
      | Inr query \<Rightarrow>
          (let queryString = URLSearchParams_toString query
           in Inr (if length queryString > 0 then ''?'' @ queryString else [])))"

text \<open>
  The older module appended to the file has its own copy of the serializer (over
  \<^verbatim>\<open>Record<string, any>\<close>); it is translated separately, from its own text.
\<close>

fun forEach_append_v1 :: "string \<Rightarrow> any list \<Rightarrow> URLSearchParams \<Rightarrow> exn + URLSearchParams" where
  "forEach_append_v1 key [] query = Inr query"
| "forEach_append_v1 key (el # els) query =
     (case toString el of
        Inl e \<Rightarrow> Inl e
      | Inr s \<Rightarrow> forEach_append_v1 key els (append query key s))"

fun generateQueryString_loop_v1 :: "(string \<times> any) list \<Rightarrow> URLSearchParams \<Rightarrow> exn + URLSearchParams" where
  "generateQueryString_loop_v1 [] query = Inr query"
| "generateQueryString_loop_v1 ((key, JArr els) # rest) query =
     (case forEach_append_v1 key els query of
        Inl e \<Rightarrow> Inl e
      | Inr query' \<Rightarrow> generateQueryString_loop_v1 rest query')"
| "generateQueryString_loop_v1 ((key, v) # rest) query =
     (if truthy v then
        (case toString v of
           Inl e \<Rightarrow> Inl e
         | Inr s \<Rightarrow> generateQueryString_loop_v1 rest (append query key s))
      else generateQueryString_loop_v1 rest query)"

definition generateQueryString_v1 :: "(string \<times> any) list \<Rightarrow> exn + string" where
  "generateQueryString_v1 queryData =
     (case generateQueryString_loop_v1 queryData [] of
        Inl e \<Rightarrow> Inl e
      | Inr query \<Rightarrow>
          (let queryString = URLSearchParams_toString query
           in Inr (if length queryString > 0 then ''?'' @ queryString else [])))"

text \<open>
  \<^verbatim>\<open>removeNullishInObject\<close>: the entries whose value is neither the empty string nor
  \<^verbatim>\<open>undefined\<close> nor \<^verbatim>\<open>null\<close>.
\<close>

definition removeNullishInObject :: "(string \<times> any) list \<Rightarrow> (string \<times> any) list" where
  "removeNullishInObject obj =
     filter (\<lambda>p. snd p \<noteq> JStr [] \<and> snd p \<noteq> JUndefined \<and> snd p \<noteq> JNull) obj"

text \<open>
  \<^verbatim>\<open>JSON.stringify\<close> on these values: a string is quoted, with the quote, the backslash
  and the control characters escaped; a property whose value is \<^verbatim>\<open>undefined\<close> is left
  out of an object, and \<^verbatim>\<open>undefined\<close> in an array is written \<^verbatim>\<open>null\<close>.
\<close>

definition json_escape :: "char \<Rightarrow> string" where
  "json_escape c =
     (if c = CHR 0x22 then [CHR 0x5C, CHR 0x22]
      else if c = CHR 0x5C then [CHR 0x5C, CHR 0x5C]
      else if c = CHR 0x08 then [CHR 0x5C, CHR ''b'']
      else if c = CHR 0x09 then [CHR 0x5C, CHR ''t'']
      else if c = CHR 0x0A then [CHR 0x5C, CHR ''n'']
      else if c = CHR 0x0C then [CHR 0x5C, CHR ''f'']
      else if c = CHR 0x0D then [CHR 0x5C, CHR ''r'']
      else if (of_char c :: nat) < 32 then
        [CHR 0x5C, CHR ''u'', CHR ''0'', CHR ''0'',
         ''0123456789abcdef'' ! (of_char c div 16), ''0123456789abcdef'' ! (of_char c mod 16)]
      else [c])"

definition json_quote :: "string \<Rightarrow> string" where
  "json_quote s = [CHR 0x22] @ concat (map json_escape s) @ [CHR 0x22]"

fun JSON_stringify :: "any \<Rightarrow> string" where
  "JSON_stringify JUndefined = ''null''"
| "JSON_stringify JNull = ''null''"
| "JSON_stringify (JBool b) = (if b then ''true'' else ''false'')"
| "JSON_stringify (JNum n) = show_int n"
| "JSON_stringify (JStr s) = json_quote s"
| "JSON_stringify (JArr xs) = ''['' @ join '','' (map JSON_stringify xs) @ '']''"
| "JSON_stringify (JObj ps) =
     ''{'' @ join '',''
       (map (\<lambda>p. json_quote (fst p) @ '':'' @ JSON_stringify (snd p))
          (filter (\<lambda>p. snd p \<noteq> JUndefined) ps))
     @ ''}''"

section \<open>Effects, schemas and the environment\<close>

text \<open>
  A schema of the validation library is used through \<^verbatim>\<open>safeParse\<close> only, which returns
  either success with the parsed value or the error it found; the error is modelled by
  the paths of its issues (the empty path is the value itself).
\<close>

type_synonym ZodError = "string list"

datatype SafeParseReturn = SafeParseSuccess any | SafeParseError ZodError

type_synonym ZodTypeAny = "any \<Rightarrow> SafeParseReturn"

definition safeParse :: "ZodTypeAny \<Rightarrow> any \<Rightarrow> SafeParseReturn" where
  "safeParse schema d = schema d"

text \<open>
  \<^verbatim>\<open>postsSchema\<close> of the posts module: an object with a string \<^verbatim>\<open>id\<close>, a string
  \<^verbatim>\<open>title\<close> and a number \<^verbatim>\<open>views\<close>; other keys are stripped from the parsed value.
\<close>

definition get_prop :: "(string \<times> any) list \<Rightarrow> string \<Rightarrow> any" where
  "get_prop ps k = (case map_of ps k of None \<Rightarrow> JUndefined | Some v \<Rightarrow> v)"

fun is_string :: "any \<Rightarrow> bool" where
  "is_string (JStr s) = True"
| "is_string v = False"

fun is_number :: "any \<Rightarrow> bool" where
  "is_number (JNum n) = True"
| "is_number v = False"

definition postsSchema :: ZodTypeAny where
  "postsSchema d =
     (case d of
        JObj ps \<Rightarrow>
          (let issues =
                 (if is_string (get_prop ps ''id'') then [] else [''id'']) @
                 (if is_string (get_prop ps ''title'') then [] else [''title'']) @
                 (if is_number (get_prop ps ''views'') then [] else [''views''])
           in if issues = []
              then SafeParseSuccess
                     (JObj [(''id'', get_prop ps ''id''), (''title'', get_prop ps ''title''),
                            (''views'', get_prop ps ''views'')])
              else SafeParseError issues)
      | _ \<Rightarrow> SafeParseError [''''])"

text \<open>
  What a step does besides returning or throwing: it calls the \<^verbatim>\<open>cancel\<close> callback of
  the request context, or it writes to the console. A step yields the effects it
  performed, in order, and either the exception it threw or the context it returned.
\<close>

datatype effect =
    Cancel
  | ConsoleGroup string string
  | ConsoleLog ZodError
  | ConsoleGroupEnd

type_synonym 'c res = "effect list \<times> (exn + 'c)"

text \<open>
  The ambient environment: \<^verbatim>\<open>import.meta.env.MODE\<close> and the runtime's \<^verbatim>\<open>JSON.parse\<close>
  (\<open>None\<close> where it throws a SyntaxError).
\<close>

record Env =
  MODE :: string
  JSON_parse :: "string \<Rightarrow> any option"

text \<open>The options of a call.\<close>

record UseCustomFetchOptions =
  isBearerTokenRequired :: "bool option"
  query :: "(string \<times> any) list option"
  json :: "(string \<times> any) list option"
  responseSchema :: "ZodTypeAny option"
  errorResponseSchema :: "ZodTypeAny option"

text \<open>The contexts of the fetch library that the hooks receive.\<close>

record RequestInit =
  headers :: "string \<rightharpoonup> string"
  body :: "string option"

record BeforeFetchContext =
  url :: string
  options :: RequestInit

record Response =
  ok :: bool

record AfterFetchContext =
  data :: any
  response :: Response

record CustomFetchErrorCtx =
  err_data :: any
  err_response :: "Response option"
  error :: ApiErrorStatus

section \<open>The middleware\<close>

definition noActionContext :: "'c \<Rightarrow> 'c res" where
  "noActionContext ctx = ([], Inr ctx)"

text \<open>
  \<^verbatim>\<open>fnList.reduce((acc, fn) => fn(acc), ctx)\<close>: the steps run left to right, and an
  exception ends the fold.
\<close>

fun fetchCurryFn :: "'c \<Rightarrow> ('c \<Rightarrow> 'c res) list \<Rightarrow> 'c res" where
  "fetchCurryFn ctx [] = ([], Inr ctx)"
| "fetchCurryFn ctx (fn # fnList) =
     (case fn ctx of
        (t, Inl e) \<Rightarrow> (t, Inl e)
      | (t, Inr acc) \<Rightarrow> (case fetchCurryFn acc fnList of (t', r) \<Rightarrow> (t @ t', r)))"

subsection \<open>Before the request\<close>

definition getAuthorizationBeforeFetch :: "bool option \<Rightarrow> BeforeFetchContext \<Rightarrow> BeforeFetchContext res" where
  "getAuthorizationBeforeFetch isBearerTokenRequired' ctx =
     (if \<not> (case isBearerTokenRequired' of None \<Rightarrow> False | Some b \<Rightarrow> b) then noActionContext ctx
      else
        (let token = ''<token>''
         in if token = [] then ([Cancel], Inr ctx)
            else ([], Inr (ctx\<lparr>options := (options ctx)
                    \<lparr>headers := (headers (options ctx))(''Authorization'' \<mapsto> ''Bearer '' @ token)\<rparr>\<rparr>))))"

definition getQueryBeforeFetch ::
    "(string \<times> any) list option \<Rightarrow> BeforeFetchContext \<Rightarrow> BeforeFetchContext res" where
  "getQueryBeforeFetch query' ctx =
     (case query' of
        None \<Rightarrow> noActionContext ctx
      | Some currentQuery \<Rightarrow>
          if length currentQuery = 0 then noActionContext ctx
          else (case generateQueryString currentQuery of
                  Inl e \<Rightarrow> ([], Inl e)
                | Inr s \<Rightarrow> ([], Inr (ctx\<lparr>url := url ctx @ s\<rparr>))))"

definition getJsonFormatBeforeFetch ::
    "(string \<times> any) list option \<Rightarrow> BeforeFetchContext \<Rightarrow> BeforeFetchContext res" where
  "getJsonFormatBeforeFetch jsonInput ctx =
     (case jsonInput of
        None \<Rightarrow> noActionContext ctx
      | Some currentRawData \<Rightarrow>
          ([], Inr (ctx\<lparr>options := (options ctx)
             \<lparr>headers := (headers (options ctx))(''Content-Type'' \<mapsto> ''application/json''),
              body := Some (JSON_stringify (JObj (removeNullishInObject currentRawData)))\<rparr>\<rparr>)))"

definition getBeforeFetch :: "UseCustomFetchOptions \<Rightarrow> BeforeFetchContext \<Rightarrow> BeforeFetchContext res" where
  "getBeforeFetch opts ctx =
     fetchCurryFn ctx
       [getAuthorizationBeforeFetch (isBearerTokenRequired opts),
        getQueryBeforeFetch (query opts),
        getJsonFormatBeforeFetch (json opts)]"

subsection \<open>After the response\<close>

definition responseSchemaAfterFetch ::
    "Env \<Rightarrow> ZodTypeAny option \<Rightarrow> AfterFetchContext \<Rightarrow> AfterFetchContext res" where
  "responseSchemaAfterFetch env responseSchema' ctx =
     (case responseSchema' of
        None \<Rightarrow> noActionContext ctx
      | Some schema \<Rightarrow>
          if \<not> ok (response ctx) then ([], Inr ctx)
          else (case safeParse schema (data ctx) of
                  SafeParseError err \<Rightarrow>
                    ((if MODE env \<noteq> ''production''
                      then [ConsoleGroup ''%c [api response] type error'' ''color: yellow;'',
                            ConsoleLog err, ConsoleGroupEnd]
                      else []),
                     Inl (TypeError TYPE_ERROR))
                | SafeParseSuccess v \<Rightarrow> ([], Inr ctx)))"

definition errorSchemaAfterFetch ::
    "Env \<Rightarrow> ZodTypeAny option \<Rightarrow> AfterFetchContext \<Rightarrow> AfterFetchContext res" where
  "errorSchemaAfterFetch env errorResponseSchema' ctx =
     (case errorResponseSchema' of
        None \<Rightarrow> noActionContext ctx
      | Some schema \<Rightarrow>
          if ok (response ctx) then ([], Inr ctx)
          else (case safeParse schema (data ctx) of
                  SafeParseError err \<Rightarrow>
                    ((if MODE env \<noteq> ''production''
                      then [ConsoleGroup ''%c [api error] type error'' ''color: yellow;'',
                            ConsoleLog err, ConsoleGroupEnd]
                      else []),
                     Inl (TypeError TYPE_ERROR))
                | SafeParseSuccess v \<Rightarrow> ([], Inr ctx)))"

definition getAfterFetch :: "Env \<Rightarrow> UseCustomFetchOptions \<Rightarrow> AfterFetchContext \<Rightarrow> AfterFetchContext res" where
  "getAfterFetch env opts ctx =
     fetchCurryFn ctx
       [responseSchemaAfterFetch env (responseSchema opts),
        errorSchemaAfterFetch env (errorResponseSchema opts)]"

subsection \<open>On a fetch error\<close>

definition typeErrorOnFetchError :: "CustomFetchErrorCtx \<Rightarrow> CustomFetchErrorCtx res" where
  "typeErrorOnFetchError ctx =
     (if error ctx = TYPE_ERROR then ([], Inr ctx) else ([], Inr ctx))"

definition timeOutErrorOnFetchError :: "CustomFetchErrorCtx \<Rightarrow> CustomFetchErrorCtx res" where
  "timeOutErrorOnFetchError ctx =
     (if error ctx = ABORT_ERROR then ([], Inr ctx) else ([], Inr ctx))"

definition responseNullOnFetchError :: "CustomFetchErrorCtx \<Rightarrow> CustomFetchErrorCtx res" where
  "responseNullOnFetchError ctx =
     (if err_response ctx = None then ([], Inr ctx) else ([], Inr ctx))"

definition errorSchemaOnFetchError ::
    "Env \<Rightarrow> ZodTypeAny option \<Rightarrow> CustomFetchErrorCtx \<Rightarrow> CustomFetchErrorCtx res" where
  "errorSchemaOnFetchError env errorResponseSchema' ctx =
     (case errorResponseSchema' of
        None \<Rightarrow> noActionContext ctx
      | Some schema \<Rightarrow>
          (case (case err_data ctx of
                   JStr s \<Rightarrow> JSON_parse env s
                 | d \<Rightarrow> Some d) of
             None \<Rightarrow> ([], Inl SyntaxError)
           | Some responseData \<Rightarrow>
               (case safeParse schema responseData of
                  SafeParseError err \<Rightarrow>
                    ((if MODE env \<noteq> ''production''
                      then [ConsoleGroup ''%c [api error] type error'' ''color: yellow;'',
                            ConsoleLog err, ConsoleGroupEnd]
                      else []),
                     Inr ctx)
                | SafeParseSuccess v \<Rightarrow> ([], Inr ctx))))"

definition getOnFetchError ::
    "Env \<Rightarrow> UseCustomFetchOptions \<Rightarrow> CustomFetchErrorCtx \<Rightarrow> CustomFetchErrorCtx res" where
  "getOnFetchError env opts ctx =
     fetchCurryFn ctx
       [typeErrorOnFetchError,
        timeOutErrorOnFetchError,
        responseNullOnFetchError,
        errorSchemaOnFetchError env (errorResponseSchema opts)]"

section \<open>Reading a query string back\<close>

text \<open>
  Modelled from the spec: the parser of the round-trip property ("serializing then
  parsing a query string"). The repository has no query-string parser, so the one meant
  is taken to be the platform's inverse of \<^verbatim>\<open>URLSearchParams.toString\<close> (drop the leading
  \<^verbatim>\<open>?\<close>, split at \<^verbatim>\<open>&\<close>, split each piece at its first \<^verbatim>\<open>=\<close>, turn \<^verbatim>\<open>+\<close> into a space
  and decode \<^verbatim>\<open>%XX\<close>), followed by the grouping the property's mapping shows: a key that
  occurs once maps to its string, a key that occurs several times maps to the array of
  its strings, keys in the order of their first occurrence.
\<close>

fun split_on :: "char \<Rightarrow> string \<Rightarrow> string list" where
  "split_on sep [] = [] # []"
| "split_on sep (c # cs) =
     (if c = sep then [] # split_on sep cs
      else (case split_on sep cs of
              [] \<Rightarrow> [c] # []
            | w # ws \<Rightarrow> (c # w) # ws))"

text \<open>Modelled from the spec: the value of a hexadecimal digit, for the parser above.\<close>

definition hex_value :: "char \<Rightarrow> nat option" where
  "hex_value c =
     (let n = (of_char c :: nat)
      in if 48 \<le> n \<and> n \<le> 57 then Some (n - 48)
         else if 65 \<le> n \<and> n \<le> 70 then Some (n - 55)
         else if 97 \<le> n \<and> n \<le> 102 then Some (n - 87)
         else None)"

text \<open>
  Modelled from the spec: the parser's decoding of a name or a value, \<^verbatim>\<open>+\<close> to a space and
  \<^verbatim>\<open>%XX\<close> to its byte; a \<^verbatim>\<open>%\<close> that two hexadecimal digits do not follow stays.
\<close>

fun urldecode :: "string \<Rightarrow> string" where
  "urldecode [] = []"
| "urldecode (c # cs) =
     (if c = CHR ''+'' then CHR '' '' # urldecode cs
      else if c = CHR ''%'' then
        (case cs of
           a # b # rest \<Rightarrow>
             (case (hex_value a, hex_value b) of
                (Some h, Some l) \<Rightarrow> char_of (16 * h + l) # urldecode rest
              | _ \<Rightarrow> c # urldecode cs)
         | _ \<Rightarrow> c # urldecode cs)
      else c # urldecode cs)"

text \<open>Modelled from the spec: one piece of the parser's input, split at its first \<^verbatim>\<open>=\<close>.\<close>

definition parse_pair :: "string \<Rightarrow> string \<times> string" where
  "parse_pair piece =
     (urldecode (takeWhile (\<lambda>c. c \<noteq> CHR ''='') piece),
      urldecode (drop 1 (dropWhile (\<lambda>c. c \<noteq> CHR ''='') piece)))"

text \<open>Modelled from the spec: the parser's list of pairs; empty pieces are skipped.\<close>

definition parse_urlencoded :: "string \<Rightarrow> URLSearchParams" where
  "parse_urlencoded s = map parse_pair (filter (\<lambda>piece. piece \<noteq> []) (split_on CHR ''&'' s))"

text \<open>Modelled from the spec: all values of a name, in order, for the grouping.\<close>

definition getAll :: "URLSearchParams \<Rightarrow> string \<Rightarrow> string list" where
  "getAll params name = map snd (filter (\<lambda>p. fst p = name) params)"

text \<open>
  Modelled from the spec: the grouping of the parser's pairs into a mapping, a string for
  a key that occurs once and an array for a key that occurs several times.
\<close>

definition group_params :: "URLSearchParams \<Rightarrow> (string \<times> any) list" where
  "group_params params =
     map (\<lambda>name. (name, (case getAll params name of
                            [v] \<Rightarrow> JStr v
                          | vs \<Rightarrow> JArr (map JStr vs))))
       (rev (remdups (rev (map fst params))))"

text \<open>
  Modelled from the spec: the parser of the round-trip property as a whole, which drops a
  leading \<^verbatim>\<open>?\<close> first.
\<close>

definition parseQueryString :: "string \<Rightarrow> (string \<times> any) list" where
  "parseQueryString s =
     group_params (parse_urlencoded (case s of c # cs \<Rightarrow> (if c = CHR ''?'' then cs else s) | [] \<Rightarrow> s))"

section \<open>What one entry contributes\<close>

text \<open>
  Used in the statements about the serializer's loop: the parameters that one entry of a
  well-typed mapping appends, an array one per element and a scalar one if it is truthy.
\<close>

definition entry_params :: "string \<times> any \<Rightarrow> URLSearchParams" where
  "entry_params p =
     (case snd p of
        JArr els \<Rightarrow> map (\<lambda>el. (fst p, ToString el)) els
      | v \<Rightarrow> if truthy v then [(fst p, ToString v)] else [])"

section \<open>The two copies of the serializer\<close>

lemma forEach_append_v1_eq: "forEach_append_v1 key els q = forEach_append key els q"
  by (induction els arbitrary: q) (simp_all split: sum.splits)

lemma generateQueryString_loop_v1_eq:
  "generateQueryString_loop_v1 qd q = generateQueryString_loop qd q"
  by (induction qd q rule: generateQueryString_loop.induct)
     (simp_all add: forEach_append_v1_eq split: sum.splits)

text \<open>
  C10. The serializer of the current module and the copy in the older module return the
  same result on every query mapping: the same string, or the same exception.
\<close>

theorem generateQueryString_copies_equal:
  "generateQueryString_v1 queryData = generateQueryString queryData"
  by (simp add: generateQueryString_v1_def generateQueryString_def
        generateQueryString_loop_v1_eq)

section \<open>Round trip of a query string\<close>

text \<open>
  C7. The mapping \<^verbatim>\<open>{a: "1", b: ["2","3"]}\<close> serializes to \<^verbatim>\<open>?a=1&b=2&b=3\<close>, and parsing
  that string gives the mapping back.
\<close>

theorem query_round_trip_example:
  "generateQueryString [(''a'', JStr ''1''), (''b'', JArr [JStr ''2'', JStr ''3''])]
     = Inr ''?a=1&b=2&b=3''
   \<and> parseQueryString ''?a=1&b=2&b=3''
     = [(''a'', JStr ''1''), (''b'', JArr [JStr ''2'', JStr ''3''])]"
  by code_simp

section \<open>Mappings with nothing to send\<close>

lemma generateQueryString_loop_all_empty:
  "\<forall>p \<in> set obj. snd p = JStr [] \<or> snd p = JNull \<or> snd p = JUndefined \<Longrightarrow>
   generateQueryString_loop obj q = Inr q"
  by (induction obj q rule: generateQueryString_loop.induct) auto

lemma URLSearchParams_toString_Nil: "URLSearchParams_toString [] = []"
  by (simp add: URLSearchParams_toString_def)

lemma removeNullishInObject_all_empty:
  "\<forall>p \<in> set obj. snd p = JStr [] \<or> snd p = JNull \<or> snd p = JUndefined \<Longrightarrow>
   removeNullishInObject obj = []"
  by (induction obj) (auto simp: removeNullishInObject_def)

text \<open>
  C5. When every value of a mapping is the empty string, \<^verbatim>\<open>null\<close> or \<^verbatim>\<open>undefined\<close>, the
  serializer returns the empty string (no \<^verbatim>\<open>?\<close>), the body cleaner returns the empty
  mapping, and the body that the JSON step sets is the empty object \<^verbatim>\<open>{}\<close>.
\<close>

theorem empty_values_give_empty_query_and_body:
  assumes "\<forall>p \<in> set obj. snd p = JStr [] \<or> snd p = JNull \<or> snd p = JUndefined"
  shows "generateQueryString obj = Inr []
       \<and> removeNullishInObject obj = []
       \<and> JSON_stringify (JObj (removeNullishInObject obj)) = ''{}''
       \<and> getJsonFormatBeforeFetch (Some obj) ctx =
           ([], Inr (ctx\<lparr>options := (options ctx)
              \<lparr>headers := (headers (options ctx))(''Content-Type'' \<mapsto> ''application/json''),
               body := Some ''{}''\<rparr>\<rparr>))"
  using assms
  by (simp add: generateQueryString_def generateQueryString_loop_all_empty
        URLSearchParams_toString_Nil removeNullishInObject_all_empty
        getJsonFormatBeforeFetch_def)

theorem empty_values_give_empty_query_and_body_witness:
  "generateQueryString [(''a'', JStr []), (''b'', JNull), (''c'', JUndefined)] = Inr []
   \<and> removeNullishInObject [(''a'', JStr []), (''b'', JNull), (''c'', JUndefined)] = []
   \<and> JSON_stringify
        (JObj (removeNullishInObject [(''a'', JStr []), (''b'', JNull), (''c'', JUndefined)]))
      = ''{}''
   \<and> body (options (projr (snd (getJsonFormatBeforeFetch
        (Some [(''a'', JStr []), (''b'', JNull), (''c'', JUndefined)])
        \<lparr>url = ''/posts'', options = \<lparr>headers = Map.empty, body = None\<rparr>\<rparr>)))) = Some ''{}''"
  using empty_values_give_empty_query_and_body
    [of "[(''a'', JStr []), (''b'', JNull), (''c'', JUndefined)]"
        "\<lparr>url = ''/posts'', options = \<lparr>headers = Map.empty, body = None\<rparr>\<rparr>"]
  by simp

section \<open>Arrays in a query mapping\<close>

lemma toString_RequestInput: "RequestInput v \<Longrightarrow> toString v = Inr (ToString v)"
  by (cases v) (simp_all add: toString_def)

lemma forEach_append_typed:
  "list_all RequestInput els \<Longrightarrow>
   forEach_append key els q = Inr (q @ map (\<lambda>el. (key, ToString el)) els)"
  by (induction els arbitrary: q) (simp_all add: toString_RequestInput append_def)

lemma generateQueryString_loop_typed:
  "list_all (\<lambda>p. RequestInputs (snd p)) qd \<Longrightarrow>
   generateQueryString_loop qd q = Inr (q @ concat (map entry_params qd))"
proof (induction qd q rule: generateQueryString_loop.induct)
  case (1 query)
  then show ?case by simp
next
  case (2 key els rest query)
  then show ?case by (simp add: forEach_append_typed entry_params_def)
qed (simp_all add: toString_RequestInput entry_params_def append_def)

lemma entry_params_fst: "x \<in> set (entry_params p) \<Longrightarrow> fst x = fst p"
  by (auto simp: entry_params_def split: any.splits if_splits)

lemma filter_entry_params_other:
  "fst p \<noteq> key \<Longrightarrow> filter (\<lambda>x. fst x = key) (entry_params p) = []"
  by (auto simp: filter_empty_conv dest: entry_params_fst)

lemma filter_entry_params_same:
  "fst p = key \<Longrightarrow> filter (\<lambda>x. fst x = key) (entry_params p) = entry_params p"
  by (auto simp: filter_id_conv dest: entry_params_fst)

lemma filter_params_absent:
  "key \<notin> fst ` set qd \<Longrightarrow> filter (\<lambda>x. fst x = key) (concat (map entry_params qd)) = []"
  by (induction qd) (auto simp: filter_entry_params_other)

lemma filter_params_key:
  "distinct (map fst qd) \<Longrightarrow> (key, v) \<in> set qd \<Longrightarrow>
   filter (\<lambda>x. fst x = key) (concat (map entry_params qd)) = entry_params (key, v)"
proof (induction qd)
  case Nil
  then show ?case by simp
next
  case (Cons p qd)
  show ?case
  proof (cases "p = (key, v)")
    case True
    with Cons.prems have "key \<notin> fst ` set qd" by auto
    with True show ?thesis
      by (simp add: filter_params_absent filter_entry_params_same)
  next
    case False
    with Cons.prems have in_rest: "(key, v) \<in> set qd" and d: "distinct (map fst qd)" by auto
    from Cons.prems in_rest have "fst p \<noteq> key" by (auto simp: image_iff)
    with Cons.IH [OF d in_rest] show ?thesis by (simp add: filter_entry_params_other)
  qed
qed

lemma join_eq_Nil: "join sep xs = [] \<Longrightarrow> \<forall>x \<in> set xs. x \<noteq> [] \<Longrightarrow> xs = []"
  by (induction sep xs rule: join.induct) auto

lemma URLSearchParams_toString_empty: "URLSearchParams_toString q = [] \<longleftrightarrow> q = []"
proof
  assume "URLSearchParams_toString q = []"
  then have "map (\<lambda>p. urlencode (fst p) @ ''='' @ urlencode (snd p)) q = []"
    unfolding URLSearchParams_toString_def by (rule join_eq_Nil) auto
  then show "q = []" by simp
qed (simp add: URLSearchParams_toString_def)

text \<open>
  C4. For a mapping of the declared type (keys distinct, as the entries of an object are)
  that holds an array under a key, the serializer's parameter list has, under that key,
  exactly one parameter per element of the array, in the array's order, each with the
  element's string; and the string returned is \<^verbatim>\<open>?\<close> followed by that list's
  serialization.
\<close>

theorem array_value_one_parameter_per_element:
  assumes "distinct (map fst queryData)"
      and "(key, JArr els) \<in> set queryData"
      and "list_all (\<lambda>p. RequestInputs (snd p)) queryData"
  shows "\<exists>query. generateQueryString_loop queryData [] = Inr query
           \<and> filter (\<lambda>p. fst p = key) query = map (\<lambda>el. (key, ToString el)) els
           \<and> generateQueryString queryData =
               Inr (if query = [] then [] else ''?'' @ URLSearchParams_toString query)"
proof -
  let ?q = "concat (map entry_params queryData)"
  have loop: "generateQueryString_loop queryData [] = Inr ?q"
    using generateQueryString_loop_typed [OF assms(3), of "[]"] by simp
  have "filter (\<lambda>p. fst p = key) ?q = entry_params (key, JArr els)"
    using assms(1,2) by (rule filter_params_key)
  then have sel: "filter (\<lambda>p. fst p = key) ?q = map (\<lambda>el. (key, ToString el)) els"
    by (simp add: entry_params_def)
  have str: "generateQueryString queryData =
               Inr (if ?q = [] then [] else ''?'' @ URLSearchParams_toString ?q)"
    by (simp add: generateQueryString_def loop Let_def URLSearchParams_toString_empty)
  from loop sel str show ?thesis by blast
qed

theorem array_value_one_parameter_per_element_witness:
  "distinct (map fst [(''tag'', JArr [JStr ''x'', JNum 7, JBool False]), (''page'', JNum 2)])
   \<and> (''tag'', JArr [JStr ''x'', JNum 7, JBool False])
       \<in> set [(''tag'', JArr [JStr ''x'', JNum 7, JBool False]), (''page'', JNum 2)]
   \<and> list_all (\<lambda>p. RequestInputs (snd p))
       [(''tag'', JArr [JStr ''x'', JNum 7, JBool False]), (''page'', JNum 2)]
   \<and> (\<exists>query.
        generateQueryString_loop
          [(''tag'', JArr [JStr ''x'', JNum 7, JBool False]), (''page'', JNum 2)] [] = Inr query
        \<and> filter (\<lambda>p. fst p = ''tag'') query
            = [(''tag'', ''x''), (''tag'', ''7''), (''tag'', ''false'')])
   \<and> generateQueryString [(''tag'', JArr [JStr ''x'', JNum 7, JBool False]), (''page'', JNum 2)]
       = Inr ''?tag=x&tag=7&tag=false&page=2''"
proof -
  have d: "distinct (map fst [(''tag'', JArr [JStr ''x'', JNum 7, JBool False]), (''page'', JNum 2)])"
    by simp
  have m: "(''tag'', JArr [JStr ''x'', JNum 7, JBool False])
       \<in> set [(''tag'', JArr [JStr ''x'', JNum 7, JBool False]), (''page'', JNum 2)]"
    by simp
  have t: "list_all (\<lambda>p. RequestInputs (snd p))
       [(''tag'', JArr [JStr ''x'', JNum 7, JBool False]), (''page'', JNum 2)]"
    by simp
  have s7: "show_int 7 = ''7''"
    by code_simp
  have g: "generateQueryString [(''tag'', JArr [JStr ''x'', JNum 7, JBool False]), (''page'', JNum 2)]
       = Inr ''?tag=x&tag=7&tag=false&page=2''"
    by code_simp
  from array_value_one_parameter_per_element [OF d m t] s7
  have "\<exists>query.
        generateQueryString_loop
          [(''tag'', JArr [JStr ''x'', JNum 7, JBool False]), (''page'', JNum 2)] [] = Inr query
        \<and> filter (\<lambda>p. fst p = ''tag'') query
            = [(''tag'', ''x''), (''tag'', ''7''), (''tag'', ''false'')]"
    by auto
  with d m t g show ?thesis by blast
qed

section \<open>The before-request chain\<close>

lemma getQueryBeforeFetch_fst: "fst (getQueryBeforeFetch q ctx) = []"
  by (simp add: getQueryBeforeFetch_def noActionContext_def split: option.splits sum.splits)

lemma getQueryBeforeFetch_options:
  "snd (getQueryBeforeFetch q ctx) = Inr ctx' \<Longrightarrow> options ctx' = options ctx"
  by (auto simp: getQueryBeforeFetch_def noActionContext_def
      split: option.splits sum.splits if_splits)

lemma getJsonFormatBeforeFetch_fst: "fst (getJsonFormatBeforeFetch j ctx) = []"
  by (simp add: getJsonFormatBeforeFetch_def noActionContext_def split: option.splits)

lemma getJsonFormatBeforeFetch_Authorization:
  "\<exists>ctx'. snd (getJsonFormatBeforeFetch j ctx) = Inr ctx' \<and>
     headers (options ctx') ''Authorization'' = headers (options ctx) ''Authorization''"
  by (simp add: getJsonFormatBeforeFetch_def noActionContext_def split: option.splits)

text \<open>The two steps after the auth step perform no effect and leave the header alone.\<close>

lemma before_tail_fst:
  "fst (fetchCurryFn ctx [getQueryBeforeFetch q, getJsonFormatBeforeFetch j]) = []"
proof (cases "getQueryBeforeFetch q ctx")
  case (Pair t r)
  with getQueryBeforeFetch_fst [of q ctx] have t: "t = []" by simp
  show ?thesis
  proof (cases r)
    case (Inl e)
    with Pair t show ?thesis by simp
  next
    case (Inr c)
    obtain t' r' where j: "getJsonFormatBeforeFetch j c = (t', r')"
      by (cases "getJsonFormatBeforeFetch j c")
    with getJsonFormatBeforeFetch_fst [of j c] have "t' = []" by simp
    with Pair t Inr j show ?thesis by (cases r') simp_all
  qed
qed

lemma before_tail_Authorization:
  assumes "snd (fetchCurryFn ctx [getQueryBeforeFetch q, getJsonFormatBeforeFetch j]) = Inr ctx'"
  shows "headers (options ctx') ''Authorization'' = headers (options ctx) ''Authorization''"
proof (cases "getQueryBeforeFetch q ctx")
  case (Pair t r)
  show ?thesis
  proof (cases r)
    case (Inl e)
    with Pair assms show ?thesis by simp
  next
    case (Inr c)
    with Pair getQueryBeforeFetch_options [of q ctx c] have c: "options c = options ctx"
      by simp
    obtain t' r' where j: "getJsonFormatBeforeFetch j c = (t', r')"
      by (cases "getJsonFormatBeforeFetch j c")
    from getJsonFormatBeforeFetch_Authorization [of j c] j obtain c' where
      c': "r' = Inr c'"
        "headers (options c') ''Authorization'' = headers (options c) ''Authorization''"
      by auto
    from Pair Inr j c' assms have "ctx' = c'" by simp
    with c c' show ?thesis by simp
  qed
qed

text \<open>On a query mapping of the declared type they do not throw.\<close>

lemma generateQueryString_typed_returns:
  "list_all (\<lambda>p. RequestInputs (snd p)) q \<Longrightarrow> \<exists>s. generateQueryString q = Inr s"
  by (simp add: generateQueryString_def generateQueryString_loop_typed Let_def)

lemma getQueryBeforeFetch_typed_returns:
  assumes "\<forall>q. qo = Some q \<longrightarrow> list_all (\<lambda>p. RequestInputs (snd p)) q"
  shows "\<exists>c. snd (getQueryBeforeFetch qo ctx) = Inr c"
proof (cases qo)
  case None
  then show ?thesis by (simp add: getQueryBeforeFetch_def noActionContext_def)
next
  case (Some q)
  with assms have "list_all (\<lambda>p. RequestInputs (snd p)) q" by simp
  then obtain s where "generateQueryString q = Inr s"
    using generateQueryString_typed_returns by blast
  with Some show ?thesis by (simp add: getQueryBeforeFetch_def noActionContext_def)
qed

lemma before_tail_returns:
  assumes "\<forall>q. qo = Some q \<longrightarrow> list_all (\<lambda>p. RequestInputs (snd p)) q"
  shows "\<exists>ctx'. snd (fetchCurryFn ctx [getQueryBeforeFetch qo, getJsonFormatBeforeFetch j]) = Inr ctx'"
proof -
  from getQueryBeforeFetch_typed_returns [OF assms, of ctx] obtain c where
    c: "snd (getQueryBeforeFetch qo ctx) = Inr c" by blast
  obtain c' where c': "snd (getJsonFormatBeforeFetch j c) = Inr c'"
    using getJsonFormatBeforeFetch_Authorization [of j c] by blast
  from c c' show ?thesis
    by (cases "getQueryBeforeFetch qo ctx"; cases "getJsonFormatBeforeFetch j c") simp
qed

lemma fetchCurryFn_Cons_returned:
  "fn ctx = (t, Inr acc) \<Longrightarrow>
   fetchCurryFn ctx (fn # fnList) =
     (t @ fst (fetchCurryFn acc fnList), snd (fetchCurryFn acc fnList))"
  by (simp split: prod.splits)




text \<open>
  C9. With the token the source has, the literal \<^verbatim>\<open><token>\<close>, and the auth flag set: the
  auth step performs no effect and returns the context with the header
  \<^verbatim>\<open>Authorization: Bearer <token>\<close>; the chain never calls \<^verbatim>\<open>cancel\<close>, a context it
  returns has that header, and it does return one when the query mapping has its declared
  type.
\<close>

theorem stub_token_always_injected:
  assumes "isBearerTokenRequired opts = Some True"
  shows "getAuthorizationBeforeFetch (isBearerTokenRequired opts) ctx =
           ([], Inr (ctx\<lparr>options := (options ctx)
              \<lparr>headers := (headers (options ctx))(''Authorization'' \<mapsto> ''Bearer <token>'')\<rparr>\<rparr>))
       \<and> Cancel \<notin> set (fst (getBeforeFetch opts ctx))
       \<and> (\<forall>ctx'. snd (getBeforeFetch opts ctx) = Inr ctx' \<longrightarrow>
            headers (options ctx') ''Authorization'' = Some ''Bearer <token>'')
       \<and> ((\<forall>q. query opts = Some q \<longrightarrow> list_all (\<lambda>p. RequestInputs (snd p)) q) \<longrightarrow>
            (\<exists>ctx'. snd (getBeforeFetch opts ctx) = Inr ctx'))"
proof -
  let ?c = "ctx\<lparr>options := (options ctx)
              \<lparr>headers := (headers (options ctx))(''Authorization'' \<mapsto> ''Bearer <token>'')\<rparr>\<rparr>"
  have step: "getAuthorizationBeforeFetch (isBearerTokenRequired opts) ctx = ([], Inr ?c)"
    using assms by (simp add: getAuthorizationBeforeFetch_def)
  have chain: "getBeforeFetch opts ctx =
      ([] @ fst (fetchCurryFn ?c
          [getQueryBeforeFetch (query opts), getJsonFormatBeforeFetch (json opts)]),
       snd (fetchCurryFn ?c
          [getQueryBeforeFetch (query opts), getJsonFormatBeforeFetch (json opts)]))"
    unfolding getBeforeFetch_def by (rule fetchCurryFn_Cons_returned) (rule step)
  have hdr: "headers (options ?c) ''Authorization'' = Some ''Bearer <token>''" by simp
  show ?thesis
    using step chain before_tail_fst [of ?c "query opts" "json opts"]
      before_tail_Authorization [of ?c "query opts" "json opts"] hdr
      before_tail_returns [of "query opts" ?c "json opts"]
    by (simp del: fetchCurryFn.simps)
qed

theorem stub_token_always_injected_witness:
  "isBearerTokenRequired
     \<lparr>isBearerTokenRequired = Some True, query = None, json = Some [(''title'', JStr ''t'')],
      responseSchema = None, errorResponseSchema = None\<rparr> = Some True
   \<and> fst (getBeforeFetch
        \<lparr>isBearerTokenRequired = Some True, query = None, json = Some [(''title'', JStr ''t'')],
         responseSchema = None, errorResponseSchema = None\<rparr>
        \<lparr>url = ''/posts'', options = \<lparr>headers = Map.empty, body = None\<rparr>\<rparr>) = []
   \<and> headers (options (projr (snd (getBeforeFetch
        \<lparr>isBearerTokenRequired = Some True, query = None, json = Some [(''title'', JStr ''t'')],
         responseSchema = None, errorResponseSchema = None\<rparr>
        \<lparr>url = ''/posts'', options = \<lparr>headers = Map.empty, body = None\<rparr>\<rparr>))))
        ''Authorization'' = Some ''Bearer <token>''"
  using stub_token_always_injected
    [of "\<lparr>isBearerTokenRequired = Some True, query = None, json = Some [(''title'', JStr ''t'')],
          responseSchema = None, errorResponseSchema = None\<rparr>"
        "\<lparr>url = ''/posts'', options = \<lparr>headers = Map.empty, body = None\<rparr>\<rparr>"]
  by (simp add: getBeforeFetch_def getAuthorizationBeforeFetch_def getQueryBeforeFetch_def
        getJsonFormatBeforeFetch_def noActionContext_def)

section \<open>The after-response chain\<close>

text \<open>
  C6. With a success schema declared, an ok response whose data the schema rejects makes
  the after-response chain throw \<^verbatim>\<open>TypeError(TYPE_ERROR)\<close> instead of returning; when the
  mode is not production it first writes the validation error to the console, and in
  production it writes nothing.
\<close>

theorem success_schema_mismatch_raises:
  assumes "responseSchema opts = Some schema"
      and "ok (response ctx)"
      and "safeParse schema (data ctx) = SafeParseError err"
  shows "getAfterFetch env opts ctx =
           ((if MODE env \<noteq> ''production''
             then [ConsoleGroup ''%c [api response] type error'' ''color: yellow;'',
                   ConsoleLog err, ConsoleGroupEnd]
             else []),
            Inl (TypeError TYPE_ERROR))"
  using assms by (simp add: getAfterFetch_def responseSchemaAfterFetch_def)

theorem success_schema_mismatch_raises_witness:
  "safeParse postsSchema (JObj [(''id'', JNum 42), (''title'', JStr ''t'')])
     = SafeParseError [''id'', ''views'']
   \<and> getAfterFetch \<lparr>MODE = ''development'', JSON_parse = (\<lambda>s. None)\<rparr>
        \<lparr>isBearerTokenRequired = None, query = None, json = None,
         responseSchema = Some postsSchema, errorResponseSchema = None\<rparr>
        \<lparr>data = JObj [(''id'', JNum 42), (''title'', JStr ''t'')], response = \<lparr>ok = True\<rparr>\<rparr>
      = ([ConsoleGroup ''%c [api response] type error'' ''color: yellow;'',
          ConsoleLog [''id'', ''views''], ConsoleGroupEnd],
         Inl (TypeError TYPE_ERROR))
   \<and> getAfterFetch \<lparr>MODE = ''production'', JSON_parse = (\<lambda>s. None)\<rparr>
        \<lparr>isBearerTokenRequired = None, query = None, json = None,
         responseSchema = Some postsSchema, errorResponseSchema = None\<rparr>
        \<lparr>data = JObj [(''id'', JNum 42), (''title'', JStr ''t'')], response = \<lparr>ok = True\<rparr>\<rparr>
      = ([], Inl (TypeError TYPE_ERROR))"
proof -
  have p: "safeParse postsSchema (JObj [(''id'', JNum 42), (''title'', JStr ''t'')])
     = SafeParseError [''id'', ''views'']"
    by (simp add: safeParse_def postsSchema_def get_prop_def)
  show ?thesis
    using p
      success_schema_mismatch_raises
        [of "\<lparr>isBearerTokenRequired = None, query = None, json = None,
              responseSchema = Some postsSchema, errorResponseSchema = None\<rparr>"
            postsSchema
            "\<lparr>data = JObj [(''id'', JNum 42), (''title'', JStr ''t'')], response = \<lparr>ok = True\<rparr>\<rparr>"
            "[''id'', ''views'']"
            "\<lparr>MODE = ''development'', JSON_parse = (\<lambda>s. None)\<rparr>"]
      success_schema_mismatch_raises
        [of "\<lparr>isBearerTokenRequired = None, query = None, json = None,
              responseSchema = Some postsSchema, errorResponseSchema = None\<rparr>"
            postsSchema
            "\<lparr>data = JObj [(''id'', JNum 42), (''title'', JStr ''t'')], response = \<lparr>ok = True\<rparr>\<rparr>"
            "[''id'', ''views'']"
            "\<lparr>MODE = ''production'', JSON_parse = (\<lambda>s. None)\<rparr>"]
    by simp
qed

section \<open>Error schemas\<close>

text \<open>
  C1, as stated, fails on the after-response side: a response with failure status whose
  data the declared error schema rejects makes the after-response chain throw
  \<^verbatim>\<open>TypeError(TYPE_ERROR)\<close>; no context is returned.
\<close>

theorem error_schema_after_fetch_raises:
  "getAfterFetch \<lparr>MODE = ''development'', JSON_parse = (\<lambda>s. None)\<rparr>
     \<lparr>isBearerTokenRequired = None, query = None, json = None, responseSchema = None,
      errorResponseSchema = Some postsSchema\<rparr>
     \<lparr>data = JObj [(''message'', JStr ''Not Found'')], response = \<lparr>ok = False\<rparr>\<rparr>
   = ([ConsoleGroup ''%c [api error] type error'' ''color: yellow;'',
       ConsoleLog [''id'', ''title'', ''views''], ConsoleGroupEnd],
      Inl (TypeError TYPE_ERROR))"
  by (simp add: getAfterFetch_def responseSchemaAfterFetch_def errorSchemaAfterFetch_def
        noActionContext_def safeParse_def postsSchema_def get_prop_def)

text \<open>
  C1, amended. With an error schema declared and data that it rejects, the mismatch is
  written to the console when the mode is not production, in both places. The
  after-response step \<^verbatim>\<open>errorSchemaAfterFetch\<close>, on a response with failure status, then
  throws \<^verbatim>\<open>TypeError(TYPE_ERROR)\<close>, and so does the after-response chain. The error hook's step \<^verbatim>\<open>errorSchemaOnFetchError\<close>, and
  with it the error-hook chain, returns the context unchanged without throwing, when the
  data is not a string or is a string that \<^verbatim>\<open>JSON.parse\<close> accepts.
\<close>

theorem error_schema_mismatch_outcomes:
  assumes "errorResponseSchema opts = Some schema"
  shows "(\<not> ok (response actx) \<and> safeParse schema (data actx) = SafeParseError err \<longrightarrow>
            errorSchemaAfterFetch env (errorResponseSchema opts) actx =
              ((if MODE env \<noteq> ''production''
                then [ConsoleGroup ''%c [api error] type error'' ''color: yellow;'',
                      ConsoleLog err, ConsoleGroupEnd]
                else []),
               Inl (TypeError TYPE_ERROR))
            \<and> getAfterFetch env opts actx =
              ((if MODE env \<noteq> ''production''
                then [ConsoleGroup ''%c [api error] type error'' ''color: yellow;'',
                      ConsoleLog err, ConsoleGroupEnd]
                else []),
               Inl (TypeError TYPE_ERROR)))
       \<and> ((case err_data ectx of JStr s \<Rightarrow> JSON_parse env s | d \<Rightarrow> Some d) = Some responseData
            \<and> safeParse schema responseData = SafeParseError err \<longrightarrow>
            errorSchemaOnFetchError env (errorResponseSchema opts) ectx =
              ((if MODE env \<noteq> ''production''
                then [ConsoleGroup ''%c [api error] type error'' ''color: yellow;'',
                      ConsoleLog err, ConsoleGroupEnd]
                else []),
               Inr ectx)
            \<and> getOnFetchError env opts ectx =
              ((if MODE env \<noteq> ''production''
                then [ConsoleGroup ''%c [api error] type error'' ''color: yellow;'',
                      ConsoleLog err, ConsoleGroupEnd]
                else []),
               Inr ectx))"
  using assms
  by (simp add: errorSchemaAfterFetch_def errorSchemaOnFetchError_def getOnFetchError_def
      typeErrorOnFetchError_def timeOutErrorOnFetchError_def responseNullOnFetchError_def
      getAfterFetch_def responseSchemaAfterFetch_def noActionContext_def
      split: option.splits)

theorem error_schema_mismatch_outcomes_witness:
  "safeParse postsSchema (JObj [(''message'', JStr ''Not Found'')])
     = SafeParseError [''id'', ''title'', ''views'']
   \<and> errorSchemaAfterFetch \<lparr>MODE = ''development'', JSON_parse = (\<lambda>s. None)\<rparr>
        (Some postsSchema)
        \<lparr>data = JObj [(''message'', JStr ''Not Found'')], response = \<lparr>ok = False\<rparr>\<rparr>
      = ([ConsoleGroup ''%c [api error] type error'' ''color: yellow;'',
          ConsoleLog [''id'', ''title'', ''views''], ConsoleGroupEnd],
         Inl (TypeError TYPE_ERROR))
   \<and> getOnFetchError \<lparr>MODE = ''development'', JSON_parse = (\<lambda>s. None)\<rparr>
        \<lparr>isBearerTokenRequired = None, query = None, json = None, responseSchema = None,
         errorResponseSchema = Some postsSchema\<rparr>
        \<lparr>err_data = JObj [(''message'', JStr ''Not Found'')],
         err_response = Some \<lparr>ok = False\<rparr>, error = TYPE_ERROR\<rparr>
      = ([ConsoleGroup ''%c [api error] type error'' ''color: yellow;'',
          ConsoleLog [''id'', ''title'', ''views''], ConsoleGroupEnd],
         Inr \<lparr>err_data = JObj [(''message'', JStr ''Not Found'')],
              err_response = Some \<lparr>ok = False\<rparr>, error = TYPE_ERROR\<rparr>)"
proof -
  have p: "safeParse postsSchema (JObj [(''message'', JStr ''Not Found'')])
     = SafeParseError [''id'', ''title'', ''views'']"
    by (simp add: safeParse_def postsSchema_def get_prop_def)
  show ?thesis
    using p
      error_schema_mismatch_outcomes
        [of "\<lparr>isBearerTokenRequired = None, query = None, json = None, responseSchema = None,
              errorResponseSchema = Some postsSchema\<rparr>"
            postsSchema
            "\<lparr>data = JObj [(''message'', JStr ''Not Found'')], response = \<lparr>ok = False\<rparr>\<rparr>"
            "[''id'', ''title'', ''views'']"
            "\<lparr>MODE = ''development'', JSON_parse = (\<lambda>s. None)\<rparr>"
            "\<lparr>err_data = JObj [(''message'', JStr ''Not Found'')],
              err_response = Some \<lparr>ok = False\<rparr>, error = TYPE_ERROR\<rparr>"
            "JObj [(''message'', JStr ''Not Found'')]"]
    by simp
qed

section \<open>The error-hook chain\<close>

text \<open>The three classifying steps return the context on both branches.\<close>

lemma getOnFetchError_eq:
  "getOnFetchError env opts ctx = errorSchemaOnFetchError env (errorResponseSchema opts) ctx"
  by (cases "errorSchemaOnFetchError env (errorResponseSchema opts) ctx";
      cases "snd (errorSchemaOnFetchError env (errorResponseSchema opts) ctx)")
     (simp_all add: getOnFetchError_def typeErrorOnFetchError_def
        timeOutErrorOnFetchError_def responseNullOnFetchError_def)

lemma errorSchemaOnFetchError_cases:
  "errorSchemaOnFetchError env s ctx = (t, r) \<Longrightarrow> r = Inl SyntaxError \<or> r = Inr ctx"
  by (auto simp: errorSchemaOnFetchError_def noActionContext_def
      split: option.splits SafeParseReturn.splits if_splits)

text \<open>When the chain returns, it returns the context it was given.\<close>

lemma getOnFetchError_returns_unchanged:
  "snd (getOnFetchError env opts ctx) = Inr ctx' \<Longrightarrow> ctx' = ctx"
proof -
  assume ret: "snd (getOnFetchError env opts ctx) = Inr ctx'"
  obtain t r where tr: "errorSchemaOnFetchError env (errorResponseSchema opts) ctx = (t, r)"
    by (cases "errorSchemaOnFetchError env (errorResponseSchema opts) ctx")
  from ret tr have "r = Inr ctx'" by (simp add: getOnFetchError_eq)
  with errorSchemaOnFetchError_cases [OF tr] show "ctx' = ctx" by simp
qed

text \<open>
  C3 fails on the code where the claim says the chain never raises: with an error
  schema declared and data that is a string \<^verbatim>\<open>JSON.parse\<close> rejects, the unguarded
  \<^verbatim>\<open>JSON.parse(ctx.data)\<close> of the last step throws a SyntaxError out of the chain.
\<close>

theorem error_hook_raises_on_unparsable_string:
  assumes "errorResponseSchema opts = Some schema"
      and "err_data ctx = JStr s"
      and "JSON_parse env s = None"
  shows "getOnFetchError env opts ctx = ([], Inl SyntaxError)"
  using assms
  by (simp add: getOnFetchError_def errorSchemaOnFetchError_def typeErrorOnFetchError_def
      timeOutErrorOnFetchError_def responseNullOnFetchError_def)

theorem error_hook_raises_on_unparsable_string_witness:
  "getOnFetchError
     \<lparr>MODE = ''development'', JSON_parse = (\<lambda>s. if s = ''null'' then Some JNull else None)\<rparr>
     \<lparr>isBearerTokenRequired = None, query = None, json = None, responseSchema = None,
      errorResponseSchema = Some postsSchema\<rparr>
     \<lparr>err_data = JStr ''Internal Server Error'', err_response = Some \<lparr>ok = False\<rparr>,
      error = SERVER_ERROR\<rparr>
   = ([], Inl SyntaxError)"
  using error_hook_raises_on_unparsable_string
    [of "\<lparr>isBearerTokenRequired = None, query = None, json = None, responseSchema = None,
          errorResponseSchema = Some postsSchema\<rparr>"
        postsSchema
        "\<lparr>err_data = JStr ''Internal Server Error'', err_response = Some \<lparr>ok = False\<rparr>,
          error = SERVER_ERROR\<rparr>"
        "''Internal Server Error''"
        "\<lparr>MODE = ''development'',
          JSON_parse = (\<lambda>s. if s = ''null'' then Some JNull else None)\<rparr>"]
  by simp

section \<open>The status SERVER\_ERROR\<close>

lemma toString_exn: "toString v = Inl e \<Longrightarrow> e = TypeError_nullish"
  by (cases v) (simp_all add: toString_def)

lemma forEach_append_exn: "forEach_append key els q = Inl e \<Longrightarrow> e = TypeError_nullish"
  by (induction els arbitrary: q) (auto split: sum.splits dest: toString_exn)

lemma generateQueryString_loop_exn:
  "generateQueryString_loop qd q = Inl e \<Longrightarrow> e = TypeError_nullish"
  by (induction qd q rule: generateQueryString_loop.induct)
     (auto split: sum.splits if_splits dest: toString_exn forEach_append_exn)

lemma generateQueryString_exn: "generateQueryString qd = Inl e \<Longrightarrow> e = TypeError_nullish"
  by (auto simp: generateQueryString_def Let_def split: sum.splits
      dest: generateQueryString_loop_exn)

lemma getBeforeFetch_exn: "snd (getBeforeFetch opts ctx) = Inl e \<Longrightarrow> e = TypeError_nullish"
  by (auto simp: getBeforeFetch_def getAuthorizationBeforeFetch_def getQueryBeforeFetch_def
        getJsonFormatBeforeFetch_def noActionContext_def
      split: option.splits sum.splits if_splits prod.splits dest: generateQueryString_exn)

lemma getAfterFetch_exn:
  "snd (getAfterFetch env opts ctx) = Inl e \<Longrightarrow> e = TypeError TYPE_ERROR"
  by (auto simp: getAfterFetch_def responseSchemaAfterFetch_def errorSchemaAfterFetch_def
        noActionContext_def
      split: option.splits sum.splits if_splits prod.splits SafeParseReturn.splits)

lemma errorSchemaOnFetchError_error_update:
  "errorSchemaOnFetchError env s (ctx\<lparr>error := e'\<rparr>) =
     map_prod id (map_sum id (error_update (\<lambda>_. e')))
       (errorSchemaOnFetchError env s (ctx\<lparr>error := e\<rparr>))"
  by (simp add: errorSchemaOnFetchError_def noActionContext_def
      split: option.splits SafeParseReturn.splits any.splits)

text \<open>
  C8. SERVER\_ERROR is never produced: a context the error-hook chain returns has the
  error tag it came with, and no chain throws a TypeError tagged SERVER\_ERROR. It is never
  consumed: what the error-hook chain does with a context tagged SERVER\_ERROR is what it
  does with the same context under any other tag (same effects, same exception, same
  context up to the tag). The contexts of the other two chains have no error field.
\<close>

theorem server_error_never_produced_or_consumed:
  "(\<forall>ctx'. snd (getOnFetchError env opts ctx) = Inr ctx' \<longrightarrow> error ctx' = error ctx)
   \<and> snd (getOnFetchError env opts ctx) \<noteq> Inl (TypeError SERVER_ERROR)
   \<and> snd (getAfterFetch env opts actx) \<noteq> Inl (TypeError SERVER_ERROR)
   \<and> snd (getBeforeFetch opts bctx) \<noteq> Inl (TypeError SERVER_ERROR)
   \<and> getOnFetchError env opts (ctx\<lparr>error := SERVER_ERROR\<rparr>) =
       map_prod id (map_sum id (error_update (\<lambda>_. SERVER_ERROR)))
         (getOnFetchError env opts (ctx\<lparr>error := e\<rparr>))"
proof -
  obtain t r where tr: "errorSchemaOnFetchError env (errorResponseSchema opts) ctx = (t, r)"
    by (cases "errorSchemaOnFetchError env (errorResponseSchema opts) ctx")
  from errorSchemaOnFetchError_cases [OF tr] tr
  have 1: "\<forall>ctx'. snd (getOnFetchError env opts ctx) = Inr ctx' \<longrightarrow> error ctx' = error ctx"
    and 2: "snd (getOnFetchError env opts ctx) \<noteq> Inl (TypeError SERVER_ERROR)"
    by (auto simp: getOnFetchError_eq)
  have 3: "snd (getAfterFetch env opts actx) \<noteq> Inl (TypeError SERVER_ERROR)"
    using getAfterFetch_exn [of env opts actx "TypeError SERVER_ERROR"] by auto
  have 4: "snd (getBeforeFetch opts bctx) \<noteq> Inl (TypeError SERVER_ERROR)"
    using getBeforeFetch_exn [of opts bctx "TypeError SERVER_ERROR"] by auto
  have 5: "getOnFetchError env opts (ctx\<lparr>error := SERVER_ERROR\<rparr>) =
       map_prod id (map_sum id (error_update (\<lambda>_. SERVER_ERROR)))
         (getOnFetchError env opts (ctx\<lparr>error := e\<rparr>))"
    unfolding getOnFetchError_eq by (rule errorSchemaOnFetchError_error_update)
  from 1 2 3 4 5 show ?thesis by blast
qed

theorem server_error_never_produced_or_consumed_witness:
  "getOnFetchError \<lparr>MODE = ''development'', JSON_parse = (\<lambda>s. None)\<rparr>
     \<lparr>isBearerTokenRequired = None, query = None, json = None, responseSchema = None,
      errorResponseSchema = Some postsSchema\<rparr>
     \<lparr>err_data = JNull, err_response = None, error = ABORT_ERROR\<rparr>
   = ([ConsoleGroup ''%c [api error] type error'' ''color: yellow;'',
       ConsoleLog [''''], ConsoleGroupEnd],
      Inr \<lparr>err_data = JNull, err_response = None, error = ABORT_ERROR\<rparr>)
   \<and> getOnFetchError \<lparr>MODE = ''development'', JSON_parse = (\<lambda>s. None)\<rparr>
     \<lparr>isBearerTokenRequired = None, query = None, json = None, responseSchema = None,
      errorResponseSchema = Some postsSchema\<rparr>
     \<lparr>err_data = JNull, err_response = None, error = SERVER_ERROR\<rparr>
   = ([ConsoleGroup ''%c [api error] type error'' ''color: yellow;'',
       ConsoleLog [''''], ConsoleGroupEnd],
      Inr \<lparr>err_data = JNull, err_response = None, error = SERVER_ERROR\<rparr>)"
  using server_error_never_produced_or_consumed
    [of "\<lparr>MODE = ''development'', JSON_parse = (\<lambda>s. None)\<rparr>"
        "\<lparr>isBearerTokenRequired = None, query = None, json = None, responseSchema = None,
          errorResponseSchema = Some postsSchema\<rparr>"
        "\<lparr>err_data = JNull, err_response = None, error = ABORT_ERROR\<rparr>"]
  by (simp add: getOnFetchError_eq errorSchemaOnFetchError_def safeParse_def postsSchema_def)

end
